theory Spec2Isabelle
  imports Main "HOL-Library.Word" "HOL-Library.Sublist"
begin

section \<open>JavaScript values of the admin console (agent-studio.jsx)\<close>

text \<open>
  A JavaScript string is a sequence of UTF-16 code units. The console stores what the
  owner types, so the text may hold any code unit; ASCII literals of the source are
  written with \<open>js\<close>.
\<close>

type_synonym js_string = "16 word list"

definition js :: "string \<Rightarrow> js_string" where
  "js s = map (\<lambda>c. of_nat (of_char c)) s"

text \<open>
  The values a property of a training record can hold. The console only ever writes
  strings and \<open>null\<close>; the other constructors are what a JSON file could hold instead.
\<close>

datatype js_value = JUndefined | JNull | JBool bool | JNum int | JStr js_string

text \<open>
  An object literal \<open>{ k1: v1, k2: v2 }\<close> is the list of its properties in the order
  they are written; \<open>map_of\<close> reads a property.
\<close>

type_synonym js_object = "(string \<times> js_value) list"

subsection \<open>\<open>String.prototype.trim\<close>\<close>

text \<open>
  \<open>trim\<close> removes WhiteSpace and LineTerminator code points from both ends
  (ECMAScript: TAB, VT, FF, SP, NBSP, ZWNBSP, the category Zs, and LF, CR, LS, PS).
  All of them lie in the basic plane, so a test on code units is exact.
\<close>

definition js_whitespace :: "16 word \<Rightarrow> bool" where
  "js_whitespace c \<longleftrightarrow>
     c \<in> set [0x9, 0xA, 0xB, 0xC, 0xD, 0x20, 0xA0, 0x1680, 0x2028, 0x2029,
               0x202F, 0x205F, 0x3000, 0xFEFF]
     \<or> (0x2000 \<le> c \<and> c \<le> 0x200A)"

definition trim :: "js_string \<Rightarrow> js_string" where
  "trim s = rev (dropWhile js_whitespace (rev (dropWhile js_whitespace s)))"

text \<open>A string is truthy exactly when it is not empty.\<close>

definition truthy :: "js_string \<Rightarrow> bool" where
  "truthy s \<longleftrightarrow> s \<noteq> []"

text \<open>\<open>s || null\<close> for a string \<open>s\<close>.\<close>

definition or_null :: "js_string \<Rightarrow> js_value" where
  "or_null s = (if truthy s then JStr s else JNull)"

subsection \<open>\<open>String.prototype.slice\<close> and the creation date\<close>

text \<open>
  \<open>s.slice(start, end)\<close>: a negative bound counts from the end, both bounds are
  clamped to the string, and an empty span gives the empty string.
\<close>

definition slice :: "int \<Rightarrow> int \<Rightarrow> js_string \<Rightarrow> js_string" where
  "slice start end s =
     (let len = int (length s);
          from = (if start < 0 then max (len + start) 0 else min start len);
          to = (if end < 0 then max (len + end) 0 else min end len)
      in take (nat (to - from)) (drop (nat from) s))"

text \<open>
  The clock is read by \<open>new Date().toISOString()\<close>; its result at the moment of the
  click is the parameter \<open>now\<close> of every add operation
  (\<open>YYYY-MM-DDTHH:mm:ss.sssZ\<close> in UTC).
\<close>

definition today :: "js_string \<Rightarrow> js_string" where
  "today now = slice 0 10 now"

subsection \<open>\<open>Array.prototype.filter\<close> with the index argument\<close>

fun filter_from :: "('a \<Rightarrow> nat \<Rightarrow> bool) \<Rightarrow> nat \<Rightarrow> 'a list \<Rightarrow> 'a list" where
  "filter_from p j [] = []"
| "filter_from p j (x # xs) =
     (if p x j then x # filter_from p (Suc j) xs else filter_from p (Suc j) xs)"

definition array_filter :: "('a \<Rightarrow> nat \<Rightarrow> bool) \<Rightarrow> 'a list \<Rightarrow> 'a list" where
  "array_filter p xs = filter_from p 0 xs"

section \<open>The four tabs\<close>

text \<open>
  Each tab receives its list and the setter of that list as props and keeps the
  contents of its input fields as local state. An operation is modelled on one render:
  it takes the list and the fields as the render's closure holds them and returns the
  list handed to the setter (the old list when the setter is not called) together with
  the fields after the call.
\<close>

definition RulesTab_add ::
  "js_string \<Rightarrow> js_object list \<Rightarrow> js_string \<Rightarrow> js_object list \<times> js_string" where
  "RulesTab_add now rules newRule =
     (if truthy (trim newRule)
      then (rules @ [[(''rule'', JStr (trim newRule)), (''added_at'', JStr (today now))]], [])
      else (rules, newRule))"

definition RulesTab_remove :: "nat \<Rightarrow> js_object list \<Rightarrow> js_object list" where
  "RulesTab_remove i rules = array_filter (\<lambda>_ j. j \<noteq> i) rules"

definition FAQTab_add ::
  "js_string \<Rightarrow> js_object list \<Rightarrow> js_string \<times> js_string
     \<Rightarrow> js_object list \<times> (js_string \<times> js_string)" where
  "FAQTab_add now faq inp =
     (case inp of (q, a) \<Rightarrow>
        if truthy (trim q) \<and> truthy (trim a)
        then (faq @ [[(''question'', JStr (trim q)), (''answer'', JStr (trim a)),
                      (''added_at'', JStr (today now))]], ([], []))
        else (faq, (q, a)))"

definition FAQTab_remove :: "nat \<Rightarrow> js_object list \<Rightarrow> js_object list" where
  "FAQTab_remove i faq = array_filter (\<lambda>_ j. j \<noteq> i) faq"

definition ExamplesTab_add ::
  "js_string \<Rightarrow> js_object list \<Rightarrow> js_string \<times> js_string \<times> js_string
     \<Rightarrow> js_object list \<times> (js_string \<times> js_string \<times> js_string)" where
  "ExamplesTab_add now examples inp =
     (case inp of (scenario, good, bad) \<Rightarrow>
        if truthy (trim scenario) \<and> truthy (trim good)
        then (examples @ [[(''scenario'', JStr (trim scenario)),
                           (''good_response'', JStr (trim good)),
                           (''bad_response'', or_null (trim bad)),
                           (''added_at'', JStr (today now))]], ([], [], []))
        else (examples, (scenario, good, bad)))"

definition ExamplesTab_remove :: "nat \<Rightarrow> js_object list \<Rightarrow> js_object list" where
  "ExamplesTab_remove i examples = array_filter (\<lambda>_ j. j \<noteq> i) examples"

definition CorrectionsTab_add ::
  "js_string \<Rightarrow> js_object list \<Rightarrow> js_string \<times> js_string \<times> js_string
     \<Rightarrow> js_object list \<times> (js_string \<times> js_string \<times> js_string)" where
  "CorrectionsTab_add now corrections inp =
     (case inp of (sit, wrong, fix) \<Rightarrow>
        if truthy (trim sit) \<and> truthy (trim fix)
        then (corrections @ [[(''situation'', JStr (trim sit)),
                              (''wrong'', or_null (trim wrong)),
                              (''correction'', JStr (trim fix)),
                              (''added_at'', JStr (today now))]], ([], [], []))
        else (corrections, (sit, wrong, fix)))"

definition CorrectionsTab_remove :: "nat \<Rightarrow> js_object list \<Rightarrow> js_object list" where
  "CorrectionsTab_remove i corrections = array_filter (\<lambda>_ j. j \<noteq> i) corrections"

section \<open>The console: \<open>AgentStudio\<close>\<close>

text \<open>The seed data the four lists start from (the constant \<open>SEED\<close>).\<close>

definition SEED_rules :: "js_object list" where
  "SEED_rules =
     [[(''rule'', JStr (js ''Never quote a specific fixed price. Always use ranges and say 'approximate'.'')),
       (''added_at'', JStr (js ''2026-02-08''))],
      [(''rule'', JStr (js ''Do NOT confirm availability for specific dates. Say we'll check during consultation.'')),
       (''added_at'', JStr (js ''2026-02-08''))],
      [(''rule'', JStr (js ''For destination events outside Ontario, mention travel surcharges ($2,000'' @ [0x2013] @ js ''$5,000).'')),
       (''added_at'', JStr (js ''2026-02-08''))],
      [(''rule'', JStr (js ''No events with fewer than 30 days notice.'')),
       (''added_at'', JStr (js ''2026-02-08''))]]"

definition SEED_faq :: "js_object list" where
  "SEED_faq =
     [[(''question'', JStr (js ''Do you travel for destination weddings?'')),
       (''answer'', JStr (js ''Yes! We've performed across Canada, the US, Mexico, and the Caribbean. Travel surcharges of $2,000'' @ [0x2013] @ js ''$5,000 apply.'')),
       (''added_at'', JStr (js ''2026-02-08''))],
      [(''question'', JStr (js ''Can we see you perform before booking?'')),
       (''answer'', JStr (js ''Absolutely! We can show videos from past events during a consultation, plus highlights at vamosevents.ca/gallery.'')),
       (''added_at'', JStr (js ''2026-02-08''))],
      [(''question'', JStr (js ''What genres do you play?'')),
       (''answer'', JStr (js ''Genre-versatile '' @ [0x2014] @ js '' Top 40, R&B, Hip Hop, Latin, House, Afrobeats, Bollywood, Greek, Arabic, and more. Custom playlists for each event.'')),
       (''added_at'', JStr (js ''2026-02-08''))]]"

definition SEED_examples :: "js_object list" where
  "SEED_examples =
     [[(''scenario'', JStr (js ''Prospect asks about pricing for a small wedding'')),
       (''good_response'', JStr (js ''For an intimate wedding, MC/DJ packages start around $5,000. A beautiful package usually comes together in the $5,000'' @ [0x2013] @ js ''$8,000 range.'')),
       (''bad_response'', JStr (js ''Our minimum is $5,000. What's your budget?'')),
       (''added_at'', JStr (js ''2026-02-08''))],
      [(''scenario'', JStr (js ''Prospect is comparing multiple vendors'')),
       (''good_response'', JStr (js ''It's smart to explore options! Our focus is on curating every moment as a fully coordinated experience '' @ [0x2014] @ js '' not just playing music.'')),
       (''bad_response'', JStr (js ''We're the best in the industry.'')),
       (''added_at'', JStr (js ''2026-02-08''))]]"

definition SEED_corrections :: "js_object list" where
  "SEED_corrections =
     [[(''situation'', JStr (js ''When a prospect mentions a venue we've worked at'')),
       (''wrong'', JStr (js ''That's a nice venue!'')),
       (''correction'', JStr (js ''If we've worked there, mention it and share a detail: 'We've worked at The Arlington Estate several times '' @ [0x2014] @ js '' the acoustics are wonderful.'' @ [0x27])),
       (''added_at'', JStr (js ''2026-02-08''))]]"

datatype tab_id = How | Rules | Faq | Examples | Corrections

text \<open>The state hooks of \<open>AgentStudio\<close>.\<close>

record studio =
  tab :: tab_id
  rules :: "js_object list"
  faq :: "js_object list"
  examples :: "js_object list"
  corrections :: "js_object list"
  saved :: bool

definition initial :: studio where
  "initial = \<lparr>tab = How, rules = SEED_rules, faq = SEED_faq, examples = SEED_examples,
              corrections = SEED_corrections, saved = False\<rparr>"

text \<open>
  What a handler asks of the browser besides setting state: a timer, or a network
  request. The console's source calls \<open>setTimeout\<close> once and has no call of
  \<open>fetch\<close>, \<open>XMLHttpRequest\<close> or any other network primitive, and the constants
  \<open>API\<close> and \<open>AGENT_ID\<close> are never read; \<open>Fetch\<close> is what such a call would be.
\<close>

datatype effect = SetTimeout nat | Fetch string js_value

fun is_Fetch :: "effect \<Rightarrow> bool" where
  "is_Fetch (Fetch url body) = True"
| "is_Fetch (SetTimeout ms) = False"

definition transmitted :: "effect list \<Rightarrow> effect list" where
  "transmitted es = filter is_Fetch es"

text \<open>\<open>save\<close>: \<open>setSaved(true); setTimeout(() => setSaved(false), 2000)\<close>.\<close>

definition save :: "studio \<Rightarrow> studio \<times> effect list" where
  "save st = (st\<lparr>saved := True\<rparr>, [SetTimeout 2000])"

text \<open>
  The clicks the console reacts to. An add click carries the clock reading and the
  contents of the tab's input fields at that moment; a remove click carries the index
  of the card whose button was pressed. \<open>SavedTimeout\<close> is the timer of \<open>save\<close> firing.
\<close>

datatype event =
    SetTab tab_id
  | RulesAdd js_string js_string
  | RulesRemove nat
  | FAQAdd js_string js_string js_string
  | FAQRemove nat
  | ExamplesAdd js_string js_string js_string js_string
  | ExamplesRemove nat
  | CorrectionsAdd js_string js_string js_string js_string
  | CorrectionsRemove nat
  | Save
  | SavedTimeout

text \<open>
  A tab is mounted only while it is the selected one
  (\<open>{tab === "rules" && <RulesTab rules={rules} setRules={setRules} />}\<close>), so its
  buttons exist only then; each tab is handed its own list and setter and nothing else.
\<close>

fun step :: "event \<Rightarrow> studio \<Rightarrow> studio \<times> effect list" where
  "step (SetTab t) st = (st\<lparr>tab := t\<rparr>, [])"
| "step (RulesAdd now newRule) st =
     (if tab st = Rules then (st\<lparr>rules := fst (RulesTab_add now (rules st) newRule)\<rparr>, [])
      else (st, []))"
| "step (RulesRemove i) st =
     (if tab st = Rules then (st\<lparr>rules := RulesTab_remove i (rules st)\<rparr>, [])
      else (st, []))"
| "step (FAQAdd now q a) st =
     (if tab st = Faq then (st\<lparr>faq := fst (FAQTab_add now (faq st) (q, a))\<rparr>, [])
      else (st, []))"
| "step (FAQRemove i) st =
     (if tab st = Faq then (st\<lparr>faq := FAQTab_remove i (faq st)\<rparr>, [])
      else (st, []))"
| "step (ExamplesAdd now scenario good bad) st =
     (if tab st = Examples
      then (st\<lparr>examples := fst (ExamplesTab_add now (examples st) (scenario, good, bad))\<rparr>, [])
      else (st, []))"
| "step (ExamplesRemove i) st =
     (if tab st = Examples then (st\<lparr>examples := ExamplesTab_remove i (examples st)\<rparr>, [])
      else (st, []))"
| "step (CorrectionsAdd now sit wrong fix) st =
     (if tab st = Corrections
      then (st\<lparr>corrections :=
                 fst (CorrectionsTab_add now (corrections st) (sit, wrong, fix))\<rparr>, [])
      else (st, []))"
| "step (CorrectionsRemove i) st =
     (if tab st = Corrections
      then (st\<lparr>corrections := CorrectionsTab_remove i (corrections st)\<rparr>, [])
      else (st, []))"
| "step Save st = save st"
| "step SavedTimeout st = (st\<lparr>saved := False\<rparr>, [])"

text \<open>A session: the clicks in order, the effects collected.\<close>

fun run :: "event list \<Rightarrow> studio \<Rightarrow> studio \<times> effect list" where
  "run [] st = (st, [])"
| "run (e # es) st =
     (case step e st of (st', out) \<Rightarrow>
        (case run es st' of (st'', out') \<Rightarrow> (st'', out @ out')))"

text \<open>A text is blank when it is empty or holds white space only.\<close>

definition blank :: "js_string \<Rightarrow> bool" where
  "blank s \<longleftrightarrow> list_all js_whitespace s"

text \<open>A text is stripped when it is not empty and neither starts nor ends with white space.\<close>

definition stripped :: "js_string \<Rightarrow> bool" where
  "stripped t \<longleftrightarrow> t \<noteq> [] \<and> \<not> js_whitespace (hd t) \<and> \<not> js_whitespace (last t)"

subsection \<open>The shape of the training records\<close>

text \<open>
  A required field holds a string; an optional field is absent, \<open>null\<close> or a string.
\<close>

definition has_text :: "string \<Rightarrow> js_object \<Rightarrow> bool" where
  "has_text k ob = (case map_of ob k of Some (JStr s) \<Rightarrow> True | _ \<Rightarrow> False)"

definition optional_text :: "string \<Rightarrow> js_object \<Rightarrow> bool" where
  "optional_text k ob =
     (case map_of ob k of None \<Rightarrow> True | Some JNull \<Rightarrow> True | Some (JStr s) \<Rightarrow> True
      | _ \<Rightarrow> False)"

definition rule_shape :: "js_object \<Rightarrow> bool" where
  "rule_shape ob \<longleftrightarrow> has_text ''rule'' ob"

definition faq_shape :: "js_object \<Rightarrow> bool" where
  "faq_shape ob \<longleftrightarrow> has_text ''question'' ob \<and> has_text ''answer'' ob"

definition example_shape :: "js_object \<Rightarrow> bool" where
  "example_shape ob \<longleftrightarrow>
     has_text ''scenario'' ob \<and> has_text ''good_response'' ob \<and> optional_text ''bad_response'' ob"

definition correction_shape :: "js_object \<Rightarrow> bool" where
  "correction_shape ob \<longleftrightarrow>
     has_text ''situation'' ob \<and> has_text ''correction'' ob \<and> optional_text ''wrong'' ob"

definition well_shaped :: "studio \<Rightarrow> bool" where
  "well_shaped st \<longleftrightarrow>
     list_all rule_shape (rules st) \<and> list_all faq_shape (faq st)
     \<and> list_all example_shape (examples st) \<and> list_all correction_shape (corrections st)"

section \<open>The backend, as the spec describes it\<close>

text \<open>
  Modelled from the spec: \<open>training.json\<close>, the per-agent file of the four training
  lists (section 6, persisted layout); the backend that reads it (\<open>app.py\<close>) is not
  among the sources. The console's seed data has the shape of this file.
\<close>

record training =
  training_rules :: "js_object list"
  training_faq :: "js_object list"
  training_examples :: "js_object list"
  training_corrections :: "js_object list"

text \<open>
  Modelled from the spec: the per-agent directory with \<open>config.json\<close> and
  \<open>training.json\<close>. An agent whose \<open>config.json\<close> is missing is not found (the
  runbook's troubleshooting entry), so the config is optional here; a missing
  \<open>training.json\<close> is the four empty lists.
\<close>

record agent_dir =
  config_json :: "js_object option"
  training_json :: training

text \<open>
  Modelled from the spec: the data directory (\<open>DATA_DIR\<close>), one directory per agent
  identifier.
\<close>

type_synonym data_store = "(string \<times> agent_dir) list"

text \<open>
  Modelled from the spec: the fixed wording of the prompt template, which the spec does
  not give. It is a parameter of the prompt builder: how the business config is written
  out, and the text put before and after each training text (the imperative framing of
  a rule, the labels of a question and an answer, and so on). Only the corrections are
  given an emphasis, which closes the prompt; the spec says that they have one, so it
  is a text of at least one code unit, held as its first code unit and the rest.
\<close>

record template =
  config_text :: "js_object \<Rightarrow> js_string"
  rule_wording :: "js_string \<times> js_string"
  question_wording :: "js_string \<times> js_string"
  answer_wording :: "js_string \<times> js_string"
  scenario_wording :: "js_string \<times> js_string"
  good_wording :: "js_string \<times> js_string"
  bad_wording :: "js_string \<times> js_string"
  situation_wording :: "js_string \<times> js_string"
  wrong_wording :: "js_string \<times> js_string"
  fix_wording :: "js_string \<times> js_string"
  closing_emphasis :: "16 word \<times> js_string"

text \<open>Modelled from the spec: the emphasis on the corrections, as a text.\<close>

definition emphasis_text :: "template \<Rightarrow> js_string" where
  "emphasis_text T = fst (closing_emphasis T) # snd (closing_emphasis T)"

text \<open>
  Modelled from the spec: a training text placed verbatim between the template's
  wording.
\<close>

definition worded :: "js_string \<times> js_string \<Rightarrow> js_string \<Rightarrow> js_string" where
  "worded w s = fst w @ s @ snd w"

text \<open>Modelled from the spec: the text of a field of a training record.\<close>

definition text_of :: "string \<Rightarrow> js_object \<Rightarrow> js_string" where
  "text_of k ob = (case map_of ob k of Some (JStr s) \<Rightarrow> s | _ \<Rightarrow> [])"

text \<open>
  Modelled from the spec: an optional field (an example's bad response, a correction's
  wrong answer) is written only when the record has it.
\<close>

definition worded_if_given :: "js_string \<times> js_string \<Rightarrow> string \<Rightarrow> js_object \<Rightarrow> js_string" where
  "worded_if_given w k ob = (case map_of ob k of Some (JStr s) \<Rightarrow> worded w s | _ \<Rightarrow> [])"

text \<open>Modelled from the spec: a rule, verbatim, as an imperative directive.\<close>

definition rule_directive :: "template \<Rightarrow> js_object \<Rightarrow> js_string" where
  "rule_directive T r = worded (rule_wording T) (text_of ''rule'' r)"

text \<open>Modelled from the spec: an FAQ pair, question then answer, verbatim.\<close>

definition faq_pair :: "template \<Rightarrow> js_object \<Rightarrow> js_string" where
  "faq_pair T f =
     worded (question_wording T) (text_of ''question'' f)
     @ worded (answer_wording T) (text_of ''answer'' f)"

text \<open>Modelled from the spec: an example, the scenario with its good and bad responses.\<close>

definition example_block :: "template \<Rightarrow> js_object \<Rightarrow> js_string" where
  "example_block T e =
     worded (scenario_wording T) (text_of ''scenario'' e)
     @ worded (good_wording T) (text_of ''good_response'' e)
     @ worded_if_given (bad_wording T) ''bad_response'' e"

text \<open>Modelled from the spec: a correction, the situation, the wrong answer and the fix.\<close>

definition correction_block :: "template \<Rightarrow> js_object \<Rightarrow> js_string" where
  "correction_block T c =
     worded (situation_wording T) (text_of ''situation'' c)
     @ worded_if_given (wrong_wording T) ''wrong'' c
     @ worded (fix_wording T) (text_of ''correction'' c)"

text \<open>
  Modelled from the spec: the prompt builder of the backend (section 4). The prompt is
  built up by appending: the business config, then each rule, then each FAQ pair, then
  each example, then each correction, then the emphasis on the corrections, which ends
  the prompt.
\<close>

definition build_system_prompt :: "template \<Rightarrow> js_object \<Rightarrow> training \<Rightarrow> js_string" where
  "build_system_prompt T cfg tr =
     (let p0 = config_text T cfg;
          p1 = foldl (\<lambda>p r. p @ rule_directive T r) p0 (training_rules tr);
          p2 = foldl (\<lambda>p f. p @ faq_pair T f) p1 (training_faq tr);
          p3 = foldl (\<lambda>p e. p @ example_block T e) p2 (training_examples tr);
          p4 = foldl (\<lambda>p c. p @ correction_block T c) p3 (training_corrections tr)
      in p4 @ emphasis_text T)"

text \<open>
  Modelled from the spec: the prompt of an agent, built from the agent's files as they
  are in the data directory; an agent without \<open>config.json\<close> is not found.
\<close>

definition prompt_for :: "template \<Rightarrow> data_store \<Rightarrow> string \<Rightarrow> js_string option" where
  "prompt_for T store a =
     (case map_of store a of
        None \<Rightarrow> None
      | Some d \<Rightarrow>
          (case config_json d of
             None \<Rightarrow> None
           | Some cfg \<Rightarrow> Some (build_system_prompt T cfg (training_json d))))"

text \<open>
  Modelled from the spec: what reaches the backend. \<open>POST /api/chat\<close> with an agent
  and a message and \<open>GET /api/agents/{id}/prompt-preview\<close> are the requests that need
  the system prompt; \<open>FilesWritten\<close> is any change of an agent's files between
  requests (a training record posted, a config edited out of band, a deploy).
\<close>

datatype server_event =
    Chat string js_string
  | PromptPreview string
  | FilesWritten string agent_dir

text \<open>
  Modelled from the spec: what a request leads to. A chat turn calls the model API with
  the system prompt and the message (the session history and the lead record are left
  out); a preview returns the prompt.
\<close>

datatype outcome = NotFound | ModelCall js_string js_string | Preview js_string | Written

text \<open>Modelled from the spec: an agent's directory replaced by its new contents.\<close>

definition write_files :: "string \<Rightarrow> agent_dir \<Rightarrow> data_store \<Rightarrow> data_store" where
  "write_files a d store = (a, d) # filter (\<lambda>(b, _). b \<noteq> a) store"

text \<open>
  Modelled from the spec: the request handlers. The only state that passes from one
  request to the next is the data directory: a prompt is built when a request needs it
  and kept nowhere.
\<close>

fun handle :: "template \<Rightarrow> server_event \<Rightarrow> data_store \<Rightarrow> outcome \<times> data_store" where
  "handle T (Chat a msg) store =
     (case prompt_for T store a of None \<Rightarrow> (NotFound, store)
      | Some p \<Rightarrow> (ModelCall p msg, store))"
| "handle T (PromptPreview a) store =
     (case prompt_for T store a of None \<Rightarrow> (NotFound, store)
      | Some p \<Rightarrow> (Preview p, store))"
| "handle T (FilesWritten a d) store = (Written, write_files a d store)"

text \<open>Modelled from the spec: the backend serving the events in order.\<close>

fun serve :: "template \<Rightarrow> server_event list \<Rightarrow> data_store \<Rightarrow> outcome list \<times> data_store" where
  "serve T [] store = ([], store)"
| "serve T (ev # evs) store =
     (case handle T ev store of (out, store') \<Rightarrow>
        (case serve T evs store' of (outs, store'') \<Rightarrow> (out # outs, store'')))"

text \<open>Modelled from the spec: the system prompt an outcome was produced with.\<close>

fun prompt_used :: "outcome \<Rightarrow> js_string option" where
  "prompt_used (ModelCall p msg) = Some p"
| "prompt_used (Preview p) = Some p"
| "prompt_used NotFound = None"
| "prompt_used Written = None"

text \<open>
  Modelled from the spec: the contents of the data directory after a sequence of
  events, which only the writes among them determine.
\<close>

fun files_after :: "server_event list \<Rightarrow> data_store \<Rightarrow> data_store" where
  "files_after [] store = store"
| "files_after (FilesWritten a d # evs) store = files_after evs (write_files a d store)"
| "files_after (Chat a msg # evs) store = files_after evs store"
| "files_after (PromptPreview a # evs) store = files_after evs store"

text \<open>
  Modelled from the spec: the environment variables the health endpoint reports on
  (section 6).
\<close>

record server_env =
  ANTHROPIC_API_KEY :: "string option"
  DATA_DIR :: string

text \<open>
  Modelled from the spec: the body of the health response, with the four fields of the
  runbook's example.
\<close>

record health_response =
  status :: string
  api_configured :: bool
  data_dir :: string
  agents :: "string list"

text \<open>
  Modelled from the spec: \<open>GET /api/health\<close>. The key counts as present when the
  variable is set to a non-empty value; the agents are the directories of the data
  directory that hold a \<open>config.json\<close>.
\<close>

definition health :: "server_env \<Rightarrow> data_store \<Rightarrow> health_response" where
  "health env store =
     \<lparr>status = ''ok'',
      api_configured = (case ANTHROPIC_API_KEY env of None \<Rightarrow> False | Some k \<Rightarrow> k \<noteq> []),
      data_dir = DATA_DIR env,
      agents = map fst (filter (\<lambda>(a, d). config_json d \<noteq> None) store)\<rparr>"

text \<open>
  Modelled from the spec: one possible wording of the template, for the concrete
  evaluations below; its emphasis reads \<open>The corrections above override everything
  else.\<close>
\<close>

definition plain_template :: template where
  "plain_template =
     \<lparr>config_text = (\<lambda>cfg. js ''You are the concierge of '' @ text_of ''business_name'' cfg
                            @ js ''. ''),
      rule_wording = (js ''You must: '', js '' ''),
      question_wording = (js ''Q: '', js '' ''),
      answer_wording = (js ''A: '', js '' ''),
      scenario_wording = (js ''Scenario: '', js '' ''),
      good_wording = (js ''Good: '', js '' ''),
      bad_wording = (js ''Bad: '', js '' ''),
      situation_wording = (js ''When: '', js '' ''),
      wrong_wording = (js ''Not: '', js '' ''),
      fix_wording = (js ''Instead: '', js '' ''),
      closing_emphasis = (0x54, js ''he corrections above override everything else.'')\<rparr>"

text \<open>
  Modelled from the spec: the data directory of the runbook's deployment, holding the
  agent \<open>vamos-events\<close> with the seed training data.
\<close>

definition sample_store :: data_store where
  "sample_store =
     [(''vamos-events'',
       \<lparr>config_json = Some [(''business_name'', JStr (js ''Vamos Events''))],
        training_json = \<lparr>training_rules = SEED_rules, training_faq = SEED_faq,
                         training_examples = SEED_examples,
                         training_corrections = SEED_corrections\<rparr>\<rparr>)]"

text \<open>
  Modelled from the spec: the files of \<open>vamos-events\<close> after the owner replaced the
  training data by a single rule.
\<close>

definition rewritten_dir :: agent_dir where
  "rewritten_dir =
     \<lparr>config_json = Some [(''business_name'', JStr (js ''Vamos Events''))],
      training_json =
        \<lparr>training_rules = [[(''rule'', JStr (js ''Be kind.'')),
                            (''added_at'', JStr (js ''2026-11-03''))]],
         training_faq = [], training_examples = [], training_corrections = []\<rparr>\<rparr>"

section \<open>Facts about the string and array primitives\<close>

lemma dropWhile_Nil_iff: "dropWhile P xs = [] \<longleftrightarrow> list_all P xs"
  by (induction xs) auto

lemma trim_Nil_iff: "trim s = [] \<longleftrightarrow> blank s"
proof -
  have "trim s = [] \<longleftrightarrow> list_all js_whitespace (dropWhile js_whitespace s)"
    by (simp add: trim_def dropWhile_Nil_iff list_all_iff)
  also have "\<dots> \<longleftrightarrow> dropWhile js_whitespace s = []"
  proof (cases "dropWhile js_whitespace s")
    case Nil
    then show ?thesis by (simp only: list.pred_inject simp_thms)
  next
    case (Cons c cs)
    then have "\<not> js_whitespace c"
      using hd_dropWhile [of js_whitespace s] by simp
    with Cons show ?thesis by simp
  qed
  also have "\<dots> \<longleftrightarrow> blank s"
    by (simp add: blank_def list_all_iff)
  finally show ?thesis .
qed

lemma truthy_trim: "truthy (trim s) \<longleftrightarrow> \<not> blank s"
  by (simp add: truthy_def trim_Nil_iff)

lemma filter_from_neq:
  "filter_from (\<lambda>_ j. j \<noteq> i) k xs =
     (if i < k then xs else take (i - k) xs @ drop (Suc (i - k)) xs)"
proof (induction xs arbitrary: k)
  case Nil
  then show ?case by simp
next
  case (Cons x xs)
  show ?case
  proof (cases "i < k")
    case True
    then show ?thesis using Cons [of "Suc k"] by simp
  next
    case False
    show ?thesis
    proof (cases "i = k")
      case True
      then show ?thesis using Cons [of "Suc k"] by simp
    next
      case ne: False
      with False have "i - k = Suc (i - Suc k)" "\<not> i < Suc k" by arith+
      then show ?thesis using Cons [of "Suc k"] ne by simp
    qed
  qed
qed

lemma array_filter_neq: "array_filter (\<lambda>_ j. j \<noteq> i) xs = take i xs @ drop (Suc i) xs"
  by (simp add: array_filter_def filter_from_neq)

lemma slice_0_10: "slice 0 10 s = take 10 s"
proof -
  have n: "nat (min 10 (int (length s))) = min 10 (length s)" by arith
  have "take (min 10 (length s)) s = take 10 s"
    by (cases "10 \<le> length s") (simp_all add: min_def)
  with n show ?thesis by (simp add: slice_def Let_def)
qed

lemma today_take: "today now = take 10 now"
  by (simp add: today_def slice_0_10)

lemma rev_dropWhile_rev_prefix:
  "xs = rev (dropWhile P (rev xs)) @ rev (takeWhile P (rev xs))"
proof -
  have "rev (rev (dropWhile P (rev xs)) @ rev (takeWhile P (rev xs))) = rev xs" by simp
  then have "rev (dropWhile P (rev xs)) @ rev (takeWhile P (rev xs)) = xs"
    by (simp only: rev_is_rev_conv)
  then show ?thesis by (rule sym)
qed

lemma trim_decomposition:
  "s = takeWhile js_whitespace s @ trim s
         @ rev (takeWhile js_whitespace (rev (dropWhile js_whitespace s)))"
proof -
  have "dropWhile js_whitespace s =
          trim s @ rev (takeWhile js_whitespace (rev (dropWhile js_whitespace s)))"
    unfolding trim_def by (rule rev_dropWhile_rev_prefix)
  then have "takeWhile js_whitespace s @ dropWhile js_whitespace s =
          takeWhile js_whitespace s @ trim s
            @ rev (takeWhile js_whitespace (rev (dropWhile js_whitespace s)))"
    by simp
  then show ?thesis by simp
qed

lemma trim_removes_only_blank:
  "\<exists>before after. s = before @ trim s @ after \<and> blank before \<and> blank after"
proof -
  let ?b = "takeWhile js_whitespace s"
  let ?a = "rev (takeWhile js_whitespace (rev (dropWhile js_whitespace s)))"
  have "s = ?b @ trim s @ ?a" by (rule trim_decomposition)
  moreover have "blank ?b"
    by (auto simp: blank_def list_all_iff dest: set_takeWhileD)
  moreover have "blank ?a"
    by (auto simp: blank_def list_all_iff dest: set_takeWhileD)
  ultimately show ?thesis by blast
qed

lemma trim_stripped: "\<not> blank s \<Longrightarrow> stripped (trim s)"
proof -
  assume nb: "\<not> blank s"
  let ?d = "dropWhile js_whitespace s"
  let ?e = "dropWhile js_whitespace (rev ?d)"
  from nb have ne: "trim s \<noteq> []" by (simp add: trim_Nil_iff)
  then have e: "?e \<noteq> []" by (simp add: trim_def)
  have d: "?d \<noteq> []" using nb by (simp add: blank_def list_all_iff)
  have "last (trim s) = hd ?e" using e by (simp add: trim_def last_rev)
  moreover have "\<not> js_whitespace (hd ?e)" using e by (rule hd_dropWhile)
  ultimately have l: "\<not> js_whitespace (last (trim s))" by simp
  have "?d = trim s @ rev (takeWhile js_whitespace (rev ?d))"
    unfolding trim_def by (rule rev_dropWhile_rev_prefix)
  then have "hd ?d = hd (trim s @ rev (takeWhile js_whitespace (rev ?d)))" by (rule arg_cong)
  then have "hd (trim s) = hd ?d" using ne by simp
  moreover have "\<not> js_whitespace (hd ?d)" using d by (rule hd_dropWhile)
  ultimately have h: "\<not> js_whitespace (hd (trim s))" by simp
  from ne h l show ?thesis by (simp add: stripped_def)
qed

section \<open>Facts about the console\<close>

lemma remove_at:
  "RulesTab_remove i xs = take i xs @ drop (Suc i) xs"
  "FAQTab_remove i xs = take i xs @ drop (Suc i) xs"
  "ExamplesTab_remove i xs = take i xs @ drop (Suc i) xs"
  "CorrectionsTab_remove i xs = take i xs @ drop (Suc i) xs"
  by (simp_all add: RulesTab_remove_def FAQTab_remove_def ExamplesTab_remove_def
      CorrectionsTab_remove_def array_filter_neq)

lemma remove_positional:
  assumes "i < length xs"
  shows "RulesTab_remove i xs = take i xs @ drop (Suc i) xs"
    and "xs = take i xs @ [xs ! i] @ drop (Suc i) xs"
    and "length (RulesTab_remove i xs) = length xs - 1"
    and "j < i \<Longrightarrow> RulesTab_remove i xs ! j = xs ! j"
    and "i \<le> j \<Longrightarrow> Suc j < length xs \<Longrightarrow> RulesTab_remove i xs ! j = xs ! Suc j"
proof -
  show "RulesTab_remove i xs = take i xs @ drop (Suc i) xs" by (simp add: remove_at)
  show "xs = take i xs @ [xs ! i] @ drop (Suc i) xs"
    using assms id_take_nth_drop [of i xs] by simp
  show "length (RulesTab_remove i xs) = length xs - 1"
    using assms by (simp add: remove_at)
  show "j < i \<Longrightarrow> RulesTab_remove i xs ! j = xs ! j"
    using assms by (simp add: remove_at nth_append)
  show "i \<le> j \<Longrightarrow> Suc j < length xs \<Longrightarrow> RulesTab_remove i xs ! j = xs ! Suc j"
    using assms by (simp add: remove_at nth_append min_def)
qed

lemma list_all_array_filter_neq:
  "list_all P xs \<Longrightarrow> list_all P (array_filter (\<lambda>_ j. j \<noteq> i) xs)"
  by (auto simp: array_filter_neq list_all_iff dest: in_set_takeD in_set_dropD)

lemma or_null_cases: "or_null s = JNull \<or> or_null s = JStr s"
  by (simp add: or_null_def)

lemma RulesTab_add_shape:
  "list_all rule_shape rs \<Longrightarrow> list_all rule_shape (fst (RulesTab_add now rs r))"
  by (simp add: RulesTab_add_def rule_shape_def has_text_def)

lemma FAQTab_add_shape:
  "list_all faq_shape fs \<Longrightarrow> list_all faq_shape (fst (FAQTab_add now fs (q, a)))"
  by (simp add: FAQTab_add_def faq_shape_def has_text_def)

lemma ExamplesTab_add_shape:
  "list_all example_shape es \<Longrightarrow>
   list_all example_shape (fst (ExamplesTab_add now es (scenario, good, bad)))"
  using or_null_cases [of "trim bad"]
  by (auto simp add: ExamplesTab_add_def example_shape_def has_text_def optional_text_def)

lemma CorrectionsTab_add_shape:
  "list_all correction_shape cs \<Longrightarrow>
   list_all correction_shape (fst (CorrectionsTab_add now cs (sit, wrong, fix)))"
  using or_null_cases [of "trim wrong"]
  by (auto simp add: CorrectionsTab_add_def correction_shape_def has_text_def optional_text_def)

lemma step_well_shaped: "well_shaped st \<Longrightarrow> well_shaped (fst (step e st))"
  by (cases e)
     (simp_all add: well_shaped_def save_def RulesTab_add_shape FAQTab_add_shape
        ExamplesTab_add_shape CorrectionsTab_add_shape list_all_array_filter_neq
        RulesTab_remove_def FAQTab_remove_def ExamplesTab_remove_def CorrectionsTab_remove_def)

lemma run_well_shaped: "well_shaped st \<Longrightarrow> well_shaped (fst (run es st))"
proof (induction es arbitrary: st)
  case Nil
  then show ?case by simp
next
  case (Cons e es)
  from Cons.prems have "well_shaped (fst (step e st))" by (rule step_well_shaped)
  then have "well_shaped (fst (run es (fst (step e st))))" by (rule Cons.IH)
  then show ?case by (simp add: split_beta)
qed

lemma initial_well_shaped: "well_shaped initial"
  by (simp add: well_shaped_def initial_def SEED_rules_def SEED_faq_def SEED_examples_def
      SEED_corrections_def rule_shape_def faq_shape_def example_shape_def correction_shape_def
      has_text_def optional_text_def)

lemma step_transmits_nothing: "transmitted (snd (step e st)) = []"
  by (cases e) (simp_all add: transmitted_def save_def)

lemma run_transmits_nothing: "transmitted (snd (run es st)) = []"
proof (induction es arbitrary: st)
  case Nil
  then show ?case by (simp add: transmitted_def)
next
  case (Cons e es)
  have "transmitted (snd (run (e # es) st)) =
          transmitted (snd (step e st)) @ transmitted (snd (run es (fst (step e st))))"
    by (simp add: split_beta transmitted_def)
  then show ?case by (simp add: step_transmits_nothing Cons.IH)
qed

section \<open>Facts about the backend model\<close>

lemma foldl_append_concat: "foldl (\<lambda>p x. p @ f x) p0 xs = p0 @ concat (map f xs)"
  by (induction xs arbitrary: p0) simp_all

lemma sublist_concat_map:
  assumes "x \<in> set xs" "sublist t (f x)"
  shows "sublist t (concat (map f xs))"
proof -
  from assms(1) obtain ys zs where "xs = ys @ x # zs" by (auto simp: in_set_conv_decomp)
  then have "concat (map f xs) = concat (map f ys) @ f x @ concat (map f zs)" by simp
  moreover from assms(2) obtain p q where "f x = p @ t @ q" by (auto simp: sublist_def)
  ultimately have "concat (map f xs) = (concat (map f ys) @ p) @ t @ (q @ concat (map f zs))"
    by simp
  then show ?thesis unfolding sublist_def by blast
qed

lemma sublist_worded: "sublist s (worded w s)"
  unfolding sublist_def worded_def by blast

lemma build_system_prompt_sections:
  "build_system_prompt T cfg tr =
     config_text T cfg
     @ concat (map (rule_directive T) (training_rules tr))
     @ concat (map (faq_pair T) (training_faq tr))
     @ concat (map (example_block T) (training_examples tr))
     @ concat (map (correction_block T) (training_corrections tr))
     @ emphasis_text T"
  by (simp add: build_system_prompt_def Let_def foldl_append_concat)

lemma handle_files: "snd (handle T ev store) = files_after [ev] store"
  by (cases ev) (simp_all split: option.splits)

lemma files_after_Cons: "files_after (ev # evs) store = files_after evs (files_after [ev] store)"
  by (cases ev) simp_all

lemma serve_nth:
  "n < length evs \<Longrightarrow>
   fst (serve T evs store) ! n = fst (handle T (evs ! n) (files_after (take n evs) store))"
proof (induction evs arbitrary: n store)
  case Nil
  then show ?case by simp
next
  case (Cons ev evs)
  show ?case
  proof (cases n)
    case 0
    then show ?thesis by (simp add: split_beta)
  next
    case (Suc m)
    with Cons.prems have m: "m < length evs" by simp
    have "fst (serve T (ev # evs) store) ! n = fst (serve T evs (snd (handle T ev store))) ! m"
      using Suc by (simp add: split_beta)
    also have "\<dots> = fst (handle T (evs ! m) (files_after (take m evs) (files_after [ev] store)))"
      using Cons.IH [OF m] by (simp add: handle_files)
    also have "\<dots> = fst (handle T ((ev # evs) ! n) (files_after (take n (ev # evs)) store))"
      using Suc files_after_Cons [of ev "take m evs" store] by simp
    finally show ?thesis .
  qed
qed

lemma prompt_used_handle:
  "ev = Chat a msg \<or> ev = PromptPreview a \<Longrightarrow>
   prompt_used (fst (handle T ev store)) = prompt_for T store a"
  by (auto split: option.splits)


lemma sublist_worded_if_given:
  "map_of ob k = Some (JStr s) \<Longrightarrow> sublist s (worded_if_given w k ob)"
  by (simp add: worded_if_given_def sublist_worded)

lemma sublist_in_block:
  "sublist (text_of ''rule'' r) (rule_directive T r)"
  "sublist (text_of ''question'' f) (faq_pair T f)"
  "sublist (text_of ''answer'' f) (faq_pair T f)"
  "sublist (text_of ''scenario'' e) (example_block T e)"
  "sublist (text_of ''good_response'' e) (example_block T e)"
  "sublist (text_of ''situation'' c) (correction_block T c)"
  "sublist (text_of ''correction'' c) (correction_block T c)"
  unfolding rule_directive_def faq_pair_def example_block_def correction_block_def
  by (blast intro: sublist_worded sublist_appendI sublist_order.order_trans
        sublist_append_leftI sublist_append_rightI)+

lemma sublist_optional_in_block:
  "map_of e ''bad_response'' = Some (JStr s) \<Longrightarrow> sublist s (example_block T e)"
  "map_of c ''wrong'' = Some (JStr s) \<Longrightarrow> sublist s (correction_block T c)"
  unfolding example_block_def correction_block_def
  by (blast intro: sublist_worded_if_given sublist_appendI sublist_order.order_trans
        sublist_append_leftI sublist_append_rightI)+

section \<open>Concrete inputs\<close>

text \<open>The inputs the witnesses below are evaluated at.\<close>

lemma blank_inputs:
  "\<not> blank (js '' Be kind. '')" "\<not> blank (js ''Do you cater?'')" "\<not> blank (js ''No. '')"
  "\<not> blank (js ''Late booking'')" "\<not> blank (js ''We can try.'')" "blank (js '' '')"
  "\<not> blank (js ''Venue named'')" "\<not> blank (js ''Nice!'')" "\<not> blank (js ''Say we know it.'')"
  "blank []" "blank (js ''   '')" "blank [0x9, 0xA0, 0x2003, 0xA]"
  by (simp_all add: blank_def js_def js_whitespace_def)

lemma trim_inputs:
  "trim (js '' Be kind. '') = js ''Be kind.''" "trim (js ''Do you cater?'') = js ''Do you cater?''"
  "trim (js ''No. '') = js ''No.''" "trim (js ''Late booking'') = js ''Late booking''"
  "trim (js ''We can try.'') = js ''We can try.''" "trim (js '' '') = []"
  "trim (js ''Venue named'') = js ''Venue named''" "trim (js ''Nice!'') = js ''Nice!''"
  "trim (js ''Say we know it.'') = js ''Say we know it.''"
  by (simp_all add: trim_def js_def js_whitespace_def)

lemma today_input: "today (js ''2026-11-03T09:15:00.000Z'') = js ''2026-11-03''"
  by (simp add: today_take js_def)

lemma take_input: "take 10 (js ''2026-11-03T09:15:00.000Z'') = js ''2026-11-03''"
  by (simp add: js_def)

lemma seed_rules_length: "length SEED_rules = 4"
  by (simp add: SEED_rules_def)

lemma seed_members:
  "SEED_rules ! 3 \<in> set SEED_rules" "SEED_faq ! 0 \<in> set SEED_faq"
  "SEED_examples ! 0 \<in> set SEED_examples" "SEED_corrections ! 0 \<in> set SEED_corrections"
  by (simp_all add: SEED_rules_def SEED_faq_def SEED_examples_def SEED_corrections_def)

lemma seed_texts:
  "text_of ''rule'' (SEED_rules ! 3) = js ''No events with fewer than 30 days notice.''"
  "text_of ''question'' (SEED_faq ! 0) = js ''Do you travel for destination weddings?''"
  "map_of (SEED_examples ! 0) ''bad_response''
     = Some (JStr (js ''Our minimum is $5,000. What's your budget?''))"
  "map_of (SEED_corrections ! 0) ''wrong'' = Some (JStr (js ''That's a nice venue!''))"
  by (simp_all add: SEED_rules_def SEED_faq_def SEED_examples_def SEED_corrections_def
      text_of_def)

lemma emphasis_plain:
  "emphasis_text plain_template = js ''The corrections above override everything else.''"
  by (simp add: emphasis_text_def plain_template_def js_def)

lemma rewritten_files:
  "map_of (write_files ''vamos-events'' rewritten_dir sample_store) ''vamos-events''
     = Some rewritten_dir"
  "config_json rewritten_dir = Some [(''business_name'', JStr (js ''Vamos Events''))]"
  by (simp_all add: write_files_def rewritten_dir_def)

section \<open>Adding records\<close>

text \<open>
  Claim C3. For each of the four lists, an add whose required inputs are not blank
  hands the setter the old list with exactly one new record appended at the end: the
  old records are the prefix of the new list, unchanged and at their old positions.
  (The optional inputs, an example's bad response and a correction's wrong answer, may
  be blank.)
\<close>

theorem add_appends_one_record:
  "(\<not> blank r \<longrightarrow>
      fst (RulesTab_add now rs r) =
        rs @ [[(''rule'', JStr (trim r)), (''added_at'', JStr (today now))]])
   \<and> (\<not> blank q \<and> \<not> blank a \<longrightarrow>
      fst (FAQTab_add now fs (q, a)) =
        fs @ [[(''question'', JStr (trim q)), (''answer'', JStr (trim a)),
               (''added_at'', JStr (today now))]])
   \<and> (\<not> blank scenario \<and> \<not> blank good \<longrightarrow>
      fst (ExamplesTab_add now es (scenario, good, bad)) =
        es @ [[(''scenario'', JStr (trim scenario)), (''good_response'', JStr (trim good)),
               (''bad_response'', or_null (trim bad)), (''added_at'', JStr (today now))]])
   \<and> (\<not> blank sit \<and> \<not> blank fix \<longrightarrow>
      fst (CorrectionsTab_add now cs (sit, wrong, fix)) =
        cs @ [[(''situation'', JStr (trim sit)), (''wrong'', or_null (trim wrong)),
               (''correction'', JStr (trim fix)), (''added_at'', JStr (today now))]])"
  by (simp add: RulesTab_add_def FAQTab_add_def ExamplesTab_add_def CorrectionsTab_add_def
      truthy_trim)

text \<open>The four adds on the seed lists, at one concrete click each.\<close>

theorem add_appends_one_record_witness:
  "\<not> blank (js '' Be kind. '') \<and> \<not> blank (js ''Do you cater?'') \<and> \<not> blank (js ''No. '')
   \<and> \<not> blank (js ''Late booking'') \<and> \<not> blank (js ''We can try.'')
   \<and> \<not> blank (js ''Venue named'') \<and> \<not> blank (js ''Say we know it.'')
   \<and> fst (RulesTab_add (js ''2026-11-03T09:15:00.000Z'') SEED_rules (js '' Be kind. '')) =
       SEED_rules @ [[(''rule'', JStr (js ''Be kind.'')), (''added_at'', JStr (js ''2026-11-03''))]]
   \<and> fst (FAQTab_add (js ''2026-11-03T09:15:00.000Z'') SEED_faq
            (js ''Do you cater?'', js ''No. '')) =
       SEED_faq @ [[(''question'', JStr (js ''Do you cater?'')), (''answer'', JStr (js ''No.'')),
                    (''added_at'', JStr (js ''2026-11-03''))]]
   \<and> fst (ExamplesTab_add (js ''2026-11-03T09:15:00.000Z'') SEED_examples
            (js ''Late booking'', js ''We can try.'', js '' '')) =
       SEED_examples @ [[(''scenario'', JStr (js ''Late booking'')),
                         (''good_response'', JStr (js ''We can try.'')),
                         (''bad_response'', JNull), (''added_at'', JStr (js ''2026-11-03''))]]
   \<and> fst (CorrectionsTab_add (js ''2026-11-03T09:15:00.000Z'') SEED_corrections
            (js ''Venue named'', js ''Nice!'', js ''Say we know it.'')) =
       SEED_corrections @ [[(''situation'', JStr (js ''Venue named'')),
                            (''wrong'', JStr (js ''Nice!'')),
                            (''correction'', JStr (js ''Say we know it.'')),
                            (''added_at'', JStr (js ''2026-11-03''))]]"
  using add_appends_one_record [of "js '' Be kind. ''" "js ''2026-11-03T09:15:00.000Z''"
      SEED_rules "js ''Do you cater?''" "js ''No. ''" SEED_faq "js ''Late booking''"
      "js ''We can try.''" SEED_examples "js '' ''" "js ''Venue named''" "js ''Say we know it.''"
      SEED_corrections "js ''Nice!''"]
  by (simp add: blank_inputs trim_inputs today_input or_null_def truthy_def) (simp add: js_def)

text \<open>
  Claim C8. When a required input is blank (empty or white space only: the rule text;
  the question or the answer; the scenario or the good response; the situation or the
  fix), add leaves the list as it is: no record is added.
\<close>

theorem blank_add_changes_nothing:
  "(blank r \<longrightarrow> fst (RulesTab_add now rs r) = rs)
   \<and> (blank q \<or> blank a \<longrightarrow> fst (FAQTab_add now fs (q, a)) = fs)
   \<and> (blank scenario \<or> blank good \<longrightarrow>
        fst (ExamplesTab_add now es (scenario, good, bad)) = es)
   \<and> (blank sit \<or> blank fix \<longrightarrow>
        fst (CorrectionsTab_add now cs (sit, wrong, fix)) = cs)"
  by (auto simp add: RulesTab_add_def FAQTab_add_def ExamplesTab_add_def CorrectionsTab_add_def
      truthy_trim)

text \<open>Blank inputs of several kinds on the seed lists.\<close>

theorem blank_add_changes_nothing_witness:
  "blank (js ''   '') \<and> blank [] \<and> blank [0x9, 0xA0, 0x2003, 0xA] \<and> blank (js '' '')
   \<and> fst (RulesTab_add (js ''2026-11-03T09:15:00.000Z'') SEED_rules (js ''   '')) = SEED_rules
   \<and> fst (FAQTab_add (js ''2026-11-03T09:15:00.000Z'') SEED_faq (js ''Do you cater?'', []))
       = SEED_faq
   \<and> fst (ExamplesTab_add (js ''2026-11-03T09:15:00.000Z'') SEED_examples
            ([0x9, 0xA0, 0x2003, 0xA], js ''We can try.'', js ''Nice!'')) = SEED_examples
   \<and> fst (CorrectionsTab_add (js ''2026-11-03T09:15:00.000Z'') SEED_corrections
            (js ''Venue named'', js ''Nice!'', js '' '')) = SEED_corrections"
  using blank_add_changes_nothing [of "js ''   ''" "js ''2026-11-03T09:15:00.000Z''" SEED_rules
      "js ''Do you cater?''" "[]" SEED_faq "[0x9, 0xA0, 0x2003, 0xA]" "js ''We can try.''"
      SEED_examples "js ''Nice!''" "js ''Venue named''" "js '' ''" SEED_corrections "js ''Nice!''"]
  by (simp add: blank_inputs)

text \<open>
  Claim C4. The record created by any of the four adds carries \<open>added_at\<close>, set
  from the clock at the moment of the call: the first ten code units of the clock's ISO
  timestamp \<open>YYYY-MM-DDTHH:mm:ss.sssZ\<close>, which are the current (UTC) date
  \<open>YYYY-MM-DD\<close>. It holds for every input that passes the non-blank guard.
\<close>

theorem added_record_is_timestamped:
  "(\<not> blank r \<longrightarrow>
      map_of (last (fst (RulesTab_add now rs r))) ''added_at'' = Some (JStr (take 10 now)))
   \<and> (\<not> blank q \<and> \<not> blank a \<longrightarrow>
      map_of (last (fst (FAQTab_add now fs (q, a)))) ''added_at'' = Some (JStr (take 10 now)))
   \<and> (\<not> blank scenario \<and> \<not> blank good \<longrightarrow>
      map_of (last (fst (ExamplesTab_add now es (scenario, good, bad)))) ''added_at''
        = Some (JStr (take 10 now)))
   \<and> (\<not> blank sit \<and> \<not> blank fix \<longrightarrow>
      map_of (last (fst (CorrectionsTab_add now cs (sit, wrong, fix)))) ''added_at''
        = Some (JStr (take 10 now)))"
  by (simp add: RulesTab_add_def FAQTab_add_def ExamplesTab_add_def CorrectionsTab_add_def
      truthy_trim today_take)

text \<open>A click on 3 November 2026, 09:15 UTC, stamps each record \<open>2026-11-03\<close>.\<close>

theorem added_record_is_timestamped_witness:
  "\<not> blank (js '' Be kind. '') \<and> \<not> blank (js ''Do you cater?'') \<and> \<not> blank (js ''No. '')
   \<and> \<not> blank (js ''Late booking'') \<and> \<not> blank (js ''We can try.'')
   \<and> \<not> blank (js ''Venue named'') \<and> \<not> blank (js ''Say we know it.'')
   \<and> map_of (last (fst (RulesTab_add (js ''2026-11-03T09:15:00.000Z'') SEED_rules
                          (js '' Be kind. '')))) ''added_at'' = Some (JStr (js ''2026-11-03''))
   \<and> map_of (last (fst (FAQTab_add (js ''2026-11-03T09:15:00.000Z'') SEED_faq
                          (js ''Do you cater?'', js ''No. '')))) ''added_at''
       = Some (JStr (js ''2026-11-03''))
   \<and> map_of (last (fst (ExamplesTab_add (js ''2026-11-03T09:15:00.000Z'') SEED_examples
                          (js ''Late booking'', js ''We can try.'', js '' '')))) ''added_at''
       = Some (JStr (js ''2026-11-03''))
   \<and> map_of (last (fst (CorrectionsTab_add (js ''2026-11-03T09:15:00.000Z'') SEED_corrections
                          (js ''Venue named'', js ''Nice!'', js ''Say we know it.'')))) ''added_at''
       = Some (JStr (js ''2026-11-03''))"
  using added_record_is_timestamped [of "js '' Be kind. ''" "js ''2026-11-03T09:15:00.000Z''"
      SEED_rules "js ''Do you cater?''" "js ''No. ''" SEED_faq "js ''Late booking''"
      "js ''We can try.''" SEED_examples "js '' ''" "js ''Venue named''" "js ''Say we know it.''"
      SEED_corrections "js ''Nice!''"]
  by (simp add: blank_inputs take_input)

text \<open>
  Claim C9. In the record an add creates, every required text field holds the input
  with the white space at both ends removed, and that text is not empty and neither
  starts nor ends with white space. The optional field (an example's \<open>bad_response\<close>,
  a correction's \<open>wrong\<close>) holds \<open>null\<close> when its input is blank and the stripped,
  non-empty input otherwise: never the empty string.
\<close>

theorem added_text_is_stripped:
  "(\<not> blank r \<longrightarrow>
      map_of (last (fst (RulesTab_add now rs r))) ''rule'' = Some (JStr (trim r))
      \<and> stripped (trim r))
   \<and> (\<not> blank q \<and> \<not> blank a \<longrightarrow>
      map_of (last (fst (FAQTab_add now fs (q, a)))) ''question'' = Some (JStr (trim q))
      \<and> stripped (trim q)
      \<and> map_of (last (fst (FAQTab_add now fs (q, a)))) ''answer'' = Some (JStr (trim a))
      \<and> stripped (trim a))
   \<and> (\<not> blank scenario \<and> \<not> blank good \<longrightarrow>
      map_of (last (fst (ExamplesTab_add now es (scenario, good, bad)))) ''scenario''
        = Some (JStr (trim scenario))
      \<and> stripped (trim scenario)
      \<and> map_of (last (fst (ExamplesTab_add now es (scenario, good, bad)))) ''good_response''
        = Some (JStr (trim good))
      \<and> stripped (trim good)
      \<and> map_of (last (fst (ExamplesTab_add now es (scenario, good, bad)))) ''bad_response''
        = Some (if blank bad then JNull else JStr (trim bad))
      \<and> (blank bad \<or> stripped (trim bad)))
   \<and> (\<not> blank sit \<and> \<not> blank fix \<longrightarrow>
      map_of (last (fst (CorrectionsTab_add now cs (sit, wrong, fix)))) ''situation''
        = Some (JStr (trim sit))
      \<and> stripped (trim sit)
      \<and> map_of (last (fst (CorrectionsTab_add now cs (sit, wrong, fix)))) ''correction''
        = Some (JStr (trim fix))
      \<and> stripped (trim fix)
      \<and> map_of (last (fst (CorrectionsTab_add now cs (sit, wrong, fix)))) ''wrong''
        = Some (if blank wrong then JNull else JStr (trim wrong))
      \<and> (blank wrong \<or> stripped (trim wrong)))"
  by (simp add: RulesTab_add_def FAQTab_add_def ExamplesTab_add_def CorrectionsTab_add_def
      truthy_trim trim_stripped or_null_def)

text \<open>Padded inputs are stored stripped; a blank optional input is stored as \<open>null\<close>.\<close>

theorem added_text_is_stripped_witness:
  "\<not> blank (js '' Be kind. '') \<and> \<not> blank (js ''Do you cater?'') \<and> \<not> blank (js ''No. '')
   \<and> \<not> blank (js ''Late booking'') \<and> \<not> blank (js ''We can try.'')
   \<and> \<not> blank (js ''Venue named'') \<and> \<not> blank (js ''Say we know it.'')
   \<and> map_of (last (fst (RulesTab_add (js ''2026-11-03T09:15:00.000Z'') SEED_rules
                          (js '' Be kind. '')))) ''rule'' = Some (JStr (js ''Be kind.''))
   \<and> stripped (js ''Be kind.'')
   \<and> map_of (last (fst (FAQTab_add (js ''2026-11-03T09:15:00.000Z'') SEED_faq
                          (js ''Do you cater?'', js ''No. '')))) ''answer'' = Some (JStr (js ''No.''))
   \<and> stripped (js ''No.'')
   \<and> map_of (last (fst (ExamplesTab_add (js ''2026-11-03T09:15:00.000Z'') SEED_examples
                          (js ''Late booking'', js ''We can try.'', js '' '')))) ''bad_response''
       = Some JNull
   \<and> map_of (last (fst (CorrectionsTab_add (js ''2026-11-03T09:15:00.000Z'') SEED_corrections
                          (js ''Venue named'', js ''Nice!'', js ''Say we know it.'')))) ''wrong''
       = Some (JStr (js ''Nice!''))
   \<and> stripped (js ''Nice!'')"
  using added_text_is_stripped [of "js '' Be kind. ''" "js ''2026-11-03T09:15:00.000Z''"
      SEED_rules "js ''Do you cater?''" "js ''No. ''" SEED_faq "js ''Late booking''"
      "js ''We can try.''" SEED_examples "js '' ''" "js ''Venue named''" "js ''Say we know it.''"
      SEED_corrections "js ''Nice!''"]
  by (simp add: blank_inputs trim_inputs)

section \<open>Removing records\<close>

text \<open>
  Claim C5 says that remove at a valid index returns the list without the record at
  that position, the others in their order, so that the removed record no longer
  appears in later prompt previews. The list is updated as the claim says, for every
  list and index (\<open>remove_positional\<close>), but the change never leaves the console: in a
  session that removes the first seed rule and clicks Save All Changes, the rules list
  of the console holds the three other rules in order, the only effect is the timer of
  the \<open>Saved\<close> badge, and no request is sent, so the backend's files and its prompt
  previews keep the record.
\<close>

theorem removal_is_never_transmitted:
  "rules (fst (run [SetTab Rules, RulesRemove 0, Save] initial))
     = [SEED_rules ! 1, SEED_rules ! 2, SEED_rules ! 3]
   \<and> snd (run [SetTab Rules, RulesRemove 0, Save] initial) = [SetTimeout 2000]
   \<and> transmitted (snd (run [SetTab Rules, RulesRemove 0, Save] initial)) = []"
  by (simp add: initial_def save_def transmitted_def remove_at SEED_rules_def)

section \<open>Invariant and frame\<close>

text \<open>
  Claim C6. Every operation of the console (an add or a remove on any tab, as well as
  switching tabs and saving) preserves the shape of the training lists: every rule has
  a \<open>rule\<close> text; every FAQ a \<open>question\<close> and an \<open>answer\<close>; every example a
  \<open>scenario\<close> and a \<open>good_response\<close>, with \<open>bad_response\<close> optional; every
  correction a \<open>situation\<close> and a \<open>correction\<close>, with \<open>wrong\<close> optional. The seed
  lists have this shape, so every state of a session has it.
\<close>

theorem operations_preserve_shape:
  "(well_shaped st \<longrightarrow> well_shaped (fst (step e st))) \<and> well_shaped (fst (run es initial))"
  by (simp add: step_well_shaped run_well_shaped initial_well_shaped)

text \<open>An example added without a bad response on the seed state.\<close>

theorem operations_preserve_shape_witness:
  "well_shaped (initial\<lparr>tab := Examples\<rparr>)
   \<and> well_shaped (fst (step (ExamplesAdd (js ''2026-11-03T09:15:00.000Z'') (js ''Late booking'')
                               (js ''We can try.'') (js '' '')) (initial\<lparr>tab := Examples\<rparr>)))
   \<and> length (examples (fst (step (ExamplesAdd (js ''2026-11-03T09:15:00.000Z'')
                               (js ''Late booking'') (js ''We can try.'') (js '' ''))
                               (initial\<lparr>tab := Examples\<rparr>)))) = 3"
proof -
  have w: "well_shaped (initial\<lparr>tab := Examples\<rparr>)"
    using initial_well_shaped by (simp add: well_shaped_def)
  have l: "length (SEED_examples) = 2" by (simp add: SEED_examples_def)
  show ?thesis
    using w l operations_preserve_shape [of "initial\<lparr>tab := Examples\<rparr>"
        "ExamplesAdd (js ''2026-11-03T09:15:00.000Z'') (js ''Late booking'')
           (js ''We can try.'') (js '' '')" "[]"]
    by (simp add: ExamplesTab_add_def truthy_trim blank_inputs initial_def)
qed

text \<open>
  Claim C10. An add or a remove on one tab leaves the three lists of the other tabs as
  they were.
\<close>

theorem tabs_touch_only_their_list:
  "faq (fst (step (RulesAdd now r) st)) = faq st
   \<and> examples (fst (step (RulesAdd now r) st)) = examples st
   \<and> corrections (fst (step (RulesAdd now r) st)) = corrections st
   \<and> faq (fst (step (RulesRemove i) st)) = faq st
   \<and> examples (fst (step (RulesRemove i) st)) = examples st
   \<and> corrections (fst (step (RulesRemove i) st)) = corrections st
   \<and> rules (fst (step (FAQAdd now q a) st)) = rules st
   \<and> examples (fst (step (FAQAdd now q a) st)) = examples st
   \<and> corrections (fst (step (FAQAdd now q a) st)) = corrections st
   \<and> rules (fst (step (FAQRemove i) st)) = rules st
   \<and> examples (fst (step (FAQRemove i) st)) = examples st
   \<and> corrections (fst (step (FAQRemove i) st)) = corrections st
   \<and> rules (fst (step (ExamplesAdd now scenario good bad) st)) = rules st
   \<and> faq (fst (step (ExamplesAdd now scenario good bad) st)) = faq st
   \<and> corrections (fst (step (ExamplesAdd now scenario good bad) st)) = corrections st
   \<and> rules (fst (step (ExamplesRemove i) st)) = rules st
   \<and> faq (fst (step (ExamplesRemove i) st)) = faq st
   \<and> corrections (fst (step (ExamplesRemove i) st)) = corrections st
   \<and> rules (fst (step (CorrectionsAdd now sit wrong fix) st)) = rules st
   \<and> faq (fst (step (CorrectionsAdd now sit wrong fix) st)) = faq st
   \<and> examples (fst (step (CorrectionsAdd now sit wrong fix) st)) = examples st
   \<and> rules (fst (step (CorrectionsRemove i) st)) = rules st
   \<and> faq (fst (step (CorrectionsRemove i) st)) = faq st
   \<and> examples (fst (step (CorrectionsRemove i) st)) = examples st"
  by simp

section \<open>Saving\<close>

text \<open>
  Claim C1 says that the save operation transmits the current training lists to the
  backend. The code does not: in a session that adds a rule and clicks Save All
  Changes, the only effect is the two-second timer of the \<open>Saved\<close> badge, and no
  request leaves the console.
\<close>

theorem save_transmits_nothing:
  "snd (run [SetTab Rules, RulesAdd (js ''2026-11-03T09:15:00.000Z'') (js ''Be kind.''), Save]
          initial) = [SetTimeout 2000]
   \<and> transmitted (snd (run [SetTab Rules,
          RulesAdd (js ''2026-11-03T09:15:00.000Z'') (js ''Be kind.''), Save] initial)) = []"
  by (simp add: initial_def save_def transmitted_def)

section \<open>The backend: prompt assembly and health\<close>

text \<open>
  Claim C2, on the backend as modelled from the spec. The system prompt is the
  concatenation, in this order, of the business config, the rules, the FAQ pairs, the
  examples and the corrections. The corrections alone are given an emphasis: it is not
  empty, follows them directly and ends the prompt. Every training text appears
  verbatim in its section: each rule; each question and answer; each scenario, good
  response and, when given, bad response; each situation, fix and, when given, wrong
  answer. Nothing is cached: in every sequence of chat turns, previews and changes of
  the files, each chat turn and each preview uses the prompt built from the agent's
  files as the writes before that request left them.
\<close>

theorem prompt_is_assembled_in_order:
  "build_system_prompt T cfg tr =
     config_text T cfg
     @ concat (map (rule_directive T) (training_rules tr))
     @ concat (map (faq_pair T) (training_faq tr))
     @ concat (map (example_block T) (training_examples tr))
     @ concat (map (correction_block T) (training_corrections tr))
     @ emphasis_text T
   \<and> emphasis_text T \<noteq> []
   \<and> suffix (concat (map (correction_block T) (training_corrections tr)) @ emphasis_text T)
        (build_system_prompt T cfg tr)
   \<and> (r \<in> set (training_rules tr) \<longrightarrow>
        sublist (text_of ''rule'' r) (concat (map (rule_directive T) (training_rules tr))))
   \<and> (f \<in> set (training_faq tr) \<longrightarrow>
        sublist (text_of ''question'' f) (concat (map (faq_pair T) (training_faq tr)))
        \<and> sublist (text_of ''answer'' f) (concat (map (faq_pair T) (training_faq tr))))
   \<and> (e \<in> set (training_examples tr) \<longrightarrow>
        sublist (text_of ''scenario'' e) (concat (map (example_block T) (training_examples tr)))
        \<and> sublist (text_of ''good_response'' e)
             (concat (map (example_block T) (training_examples tr)))
        \<and> (map_of e ''bad_response'' = Some (JStr bad) \<longrightarrow>
             sublist bad (concat (map (example_block T) (training_examples tr)))))
   \<and> (c \<in> set (training_corrections tr) \<longrightarrow>
        sublist (text_of ''situation'' c)
          (concat (map (correction_block T) (training_corrections tr)))
        \<and> sublist (text_of ''correction'' c)
             (concat (map (correction_block T) (training_corrections tr)))
        \<and> (map_of c ''wrong'' = Some (JStr wrong) \<longrightarrow>
             sublist wrong (concat (map (correction_block T) (training_corrections tr)))))
   \<and> (n < length evs \<and> (evs ! n = Chat a msg \<or> evs ! n = PromptPreview a)
        \<and> map_of (files_after (take n evs) store) a = Some d \<and> config_json d = Some cfg \<longrightarrow>
        prompt_used (fst (serve T evs store) ! n)
          = Some (build_system_prompt T cfg (training_json d)))"
proof -
  have sections: "build_system_prompt T cfg tr =
     config_text T cfg
     @ concat (map (rule_directive T) (training_rules tr))
     @ concat (map (faq_pair T) (training_faq tr))
     @ concat (map (example_block T) (training_examples tr))
     @ concat (map (correction_block T) (training_corrections tr))
     @ emphasis_text T"
    by (rule build_system_prompt_sections)
  have emphasised: "emphasis_text T \<noteq> []"
    by (simp add: emphasis_text_def)
  have closes: "suffix (concat (map (correction_block T) (training_corrections tr))
                        @ emphasis_text T) (build_system_prompt T cfg tr)"
    unfolding suffix_def
  proof
    show "build_system_prompt T cfg tr =
            (config_text T cfg
             @ concat (map (rule_directive T) (training_rules tr))
             @ concat (map (faq_pair T) (training_faq tr))
             @ concat (map (example_block T) (training_examples tr)))
            @ concat (map (correction_block T) (training_corrections tr)) @ emphasis_text T"
      by (simp add: build_system_prompt_sections)
  qed
  have rule: "r \<in> set (training_rules tr) \<longrightarrow>
        sublist (text_of ''rule'' r) (concat (map (rule_directive T) (training_rules tr)))"
    by (auto intro: sublist_concat_map sublist_in_block)
  have pair: "f \<in> set (training_faq tr) \<longrightarrow>
        sublist (text_of ''question'' f) (concat (map (faq_pair T) (training_faq tr)))
        \<and> sublist (text_of ''answer'' f) (concat (map (faq_pair T) (training_faq tr)))"
    by (auto intro: sublist_concat_map sublist_in_block)
  have example: "e \<in> set (training_examples tr) \<longrightarrow>
        sublist (text_of ''scenario'' e) (concat (map (example_block T) (training_examples tr)))
        \<and> sublist (text_of ''good_response'' e)
             (concat (map (example_block T) (training_examples tr)))
        \<and> (map_of e ''bad_response'' = Some (JStr bad) \<longrightarrow>
             sublist bad (concat (map (example_block T) (training_examples tr))))"
    by (auto intro: sublist_concat_map sublist_in_block sublist_optional_in_block)
  have correction: "c \<in> set (training_corrections tr) \<longrightarrow>
        sublist (text_of ''situation'' c)
          (concat (map (correction_block T) (training_corrections tr)))
        \<and> sublist (text_of ''correction'' c)
             (concat (map (correction_block T) (training_corrections tr)))
        \<and> (map_of c ''wrong'' = Some (JStr wrong) \<longrightarrow>
             sublist wrong (concat (map (correction_block T) (training_corrections tr))))"
    by (auto intro: sublist_concat_map sublist_in_block sublist_optional_in_block)
  have fresh: "n < length evs \<and> (evs ! n = Chat a msg \<or> evs ! n = PromptPreview a)
        \<and> map_of (files_after (take n evs) store) a = Some d \<and> config_json d = Some cfg \<longrightarrow>
        prompt_used (fst (serve T evs store) ! n)
          = Some (build_system_prompt T cfg (training_json d))"
  proof (intro impI, elim conjE)
    assume n: "n < length evs" and ev: "evs ! n = Chat a msg \<or> evs ! n = PromptPreview a"
      and d: "map_of (files_after (take n evs) store) a = Some d" and c: "config_json d = Some cfg"
    have "prompt_used (fst (serve T evs store) ! n)
            = prompt_used (fst (handle T (evs ! n) (files_after (take n evs) store)))"
      using n by (simp add: serve_nth)
    also have "\<dots> = prompt_for T (files_after (take n evs) store) a"
      using ev by (rule prompt_used_handle)
    also have "\<dots> = Some (build_system_prompt T cfg (training_json d))"
      using d c by (simp add: prompt_for_def)
    finally show "prompt_used (fst (serve T evs store) ! n)
                    = Some (build_system_prompt T cfg (training_json d))" .
  qed
  from sections emphasised closes rule pair example correction fresh show ?thesis
    by (intro conjI)
qed

text \<open>
  The seed training data under one wording of the template; and a preview, a rewrite of
  the training data and a chat turn in this order: the chat turn is given the prompt of
  the rewritten files, not the one the preview had shown.
\<close>

theorem prompt_is_assembled_in_order_witness:
  "SEED_rules ! 3 \<in> set SEED_rules \<and> SEED_faq ! 0 \<in> set SEED_faq
   \<and> SEED_examples ! 0 \<in> set SEED_examples \<and> SEED_corrections ! 0 \<in> set SEED_corrections
   \<and> sublist (js ''No events with fewer than 30 days notice.'')
        (concat (map (rule_directive plain_template) SEED_rules))
   \<and> sublist (js ''Do you travel for destination weddings?'')
        (concat (map (faq_pair plain_template) SEED_faq))
   \<and> sublist (js ''Our minimum is $5,000. What's your budget?'')
        (concat (map (example_block plain_template) SEED_examples))
   \<and> sublist (js ''That's a nice venue!'')
        (concat (map (correction_block plain_template) SEED_corrections))
   \<and> emphasis_text plain_template = js ''The corrections above override everything else.''
   \<and> prompt_used (fst (serve plain_template
          [PromptPreview ''vamos-events'', FilesWritten ''vamos-events'' rewritten_dir,
           Chat ''vamos-events'' (js ''Hi, I am planning a wedding!'')] sample_store) ! 2)
       = Some (build_system_prompt plain_template
                 [(''business_name'', JStr (js ''Vamos Events''))] (training_json rewritten_dir))"
  using prompt_is_assembled_in_order [where T = plain_template
      and cfg = "[(''business_name'', JStr (js ''Vamos Events''))]"
      and tr = "\<lparr>training_rules = SEED_rules, training_faq = SEED_faq,
        training_examples = SEED_examples, training_corrections = SEED_corrections\<rparr>"
      and r = "SEED_rules ! 3" and f = "SEED_faq ! 0" and e = "SEED_examples ! 0"
      and bad = "js ''Our minimum is $5,000. What's your budget?''"
      and c = "SEED_corrections ! 0" and wrong = "js ''That's a nice venue!''"
      and evs = "[PromptPreview ''vamos-events'', FilesWritten ''vamos-events'' rewritten_dir,
           Chat ''vamos-events'' (js ''Hi, I am planning a wedding!'')]"
      and n = 2 and a = "''vamos-events''" and msg = "js ''Hi, I am planning a wedding!''"
      and store = sample_store and d = rewritten_dir]
  by (simp del: serve.simps add: seed_members seed_texts emphasis_plain rewritten_files)

text \<open>
  Claim C7, on the backend as modelled from the spec. The health response has status
  \<open>ok\<close>, says that the API is configured exactly when the key is set and not empty,
  gives the data directory of the environment, and lists exactly the agents that have
  a configuration.
\<close>

theorem health_reports_configuration:
  "status (health env store) = ''ok''
   \<and> (api_configured (health env store) \<longleftrightarrow> (\<exists>k. ANTHROPIC_API_KEY env = Some k \<and> k \<noteq> []))
   \<and> data_dir (health env store) = DATA_DIR env
   \<and> (a \<in> set (agents (health env store)) \<longleftrightarrow>
        (\<exists>d. (a, d) \<in> set store \<and> config_json d \<noteq> None))"
proof -
  have key: "api_configured (health env store) \<longleftrightarrow>
               (\<exists>k. ANTHROPIC_API_KEY env = Some k \<and> k \<noteq> [])"
    by (simp add: health_def split: option.splits)
  have listed: "a \<in> set (agents (health env store)) \<longleftrightarrow>
                  (\<exists>d. (a, d) \<in> set store \<and> config_json d \<noteq> None)"
    by (force simp add: health_def)
  from key listed show ?thesis by (simp add: health_def)
qed

text \<open>
  The deployment of the runbook answers as its example shows; without a key and without
  agents the response says so.
\<close>

theorem health_reports_configuration_witness:
  "health \<lparr>ANTHROPIC_API_KEY = Some ''sk-ant-api03-example'', DATA_DIR = ''/app/data''\<rparr> sample_store
     = \<lparr>status = ''ok'', api_configured = True, data_dir = ''/app/data'',
        agents = [''vamos-events'']\<rparr>
   \<and> ''vamos-events'' \<in> set (agents (health \<lparr>ANTHROPIC_API_KEY = Some ''sk-ant-api03-example'',
                                               DATA_DIR = ''/app/data''\<rparr> sample_store))
   \<and> \<not> api_configured (health \<lparr>ANTHROPIC_API_KEY = None, DATA_DIR = ''/app/data''\<rparr> [])"
  using health_reports_configuration [of
      "\<lparr>ANTHROPIC_API_KEY = Some ''sk-ant-api03-example'', DATA_DIR = ''/app/data''\<rparr>"
      sample_store "''vamos-events''"]
    health_reports_configuration [of "\<lparr>ANTHROPIC_API_KEY = None, DATA_DIR = ''/app/data''\<rparr>"
      "[]" "''vamos-events''"]
  by (simp add: health_def sample_store_def)

end
